theory Spec2Isabelle
  imports Main "HOL-Library.Word"
begin

unbundle bit_operations_syntax

section \<open>Data model\<close>

text \<open>
  The target is a 32-bit microcontroller: \<open>uint\<close>, \<open>uint32_t\<close> and \<open>size_t\<close> are
  32-bit unsigned integers whose arithmetic wraps around.
\<close>

type_synonym u32 = "32 word"

text \<open>
  The two ways in which a call can fail to return normally. The model is that of a build
  with assertions enabled: a failed \<open>assert\<close> aborts the program. Indexing the
  \<open>std::array\<close> of handlers outside its bounds is undefined behaviour in the source and is
  an error of its own here.
\<close>

datatype error = AssertionFailure | OutOfBounds

text \<open>
  \<open>PIO\<close> is a pointer to the register block of one peripheral instance. The model keeps
  what the source reads through it: the number of the instance (\<open>PIO_NUM(pio)\<close>) and the
  value of the raised-flag register \<open>pio->irq\<close>, which is the same at each read made
  during one run of the dispatch function.
\<close>

record pio_hw =
  PIO_NUM :: u32
  irq :: u32

text \<open>The context-free dispatch entry points, as function pointers (\<open>irq_handler_t\<close>).\<close>

datatype irq_handler_t =
  Interrupt_handler_PIO0 | Interrupt_handler_PIO1 | Interrupt_handler_PIO2

text \<open>
  What a run does beyond computing values: the calls into the platform's register layer, the
  accesses to the table \<open>handlers_\<close>, and the invocation of a bound handler object. A
  handler pointer \<open>H *\<close> is an \<open>'h option\<close>, with \<open>None\<close> for \<open>nullptr\<close>.
\<close>

datatype 'h event =
    PioSetIrq0SourceEnabled u32 u32 bool
  | PioSetIrq1SourceEnabled u32 u32 bool
  | PioInterruptClear u32 u32
  | IrqAddSharedHandler u32 "irq_handler_t option" u32
  | IrqSetEnabled u32 bool
  | HandlersLoad nat
  | HandlersStore nat "'h option"
  | Invoke 'h

text \<open>
  The state of one instantiation \<open>pio_irq<H, interrupt_number>\<close>: its static table
  \<open>handlers_\<close> (here \<open>handlers\<close>) and the events so far, oldest first.
\<close>

record 'h world =
  handlers :: "'h option list"
  trace :: "'h event list"

text \<open>
  Constants of the platform headers, which are not part of the repository: the number of
  PIO blocks, the vector number of line 0 of block 0, the first of the interrupt sources
  \<open>pis_interrupt0 \<dots> pis_interrupt3\<close>, and the default order priority of a shared handler.
\<close>

record platform =
  NUM_PIOS :: nat
  PIO0_IRQ_0 :: u32
  pis_interrupt0 :: u32
  PICO_SHARED_IRQ_HANDLER_DEFAULT_ORDER_PRIORITY :: u32

section \<open>Index arithmetic\<close>

text \<open>
  The loop of \<open>sm_from_interrupt\<close>: \<open>for (i = 0; i < 4; i++) if (irq_val & 1 << i) break;\<close>
  started at \<open>i\<close>; the result is the value of \<open>i\<close> after the loop.
\<close>

function sm_from_interrupt_loop :: "u32 \<Rightarrow> u32 \<Rightarrow> u32" where
  "sm_from_interrupt_loop irq_val i =
     (if i < 4 then
        (if irq_val AND push_bit (unat i) 1 \<noteq> 0 then i
         else sm_from_interrupt_loop irq_val (i + 1))
      else i)"
  by pat_completeness auto
termination
proof (relation "measure (\<lambda>(irq_val, i). 4 - unat i)")
  show "wf (measure (\<lambda>(irq_val :: u32, i :: u32). 4 - unat i))"
    by simp
next
  fix irq_val i :: u32
  assume "i < 4"
  then have small: "unat i < 4"
    by (simp add: word_less_nat_alt)
  then have "unat (i + 1) = unat i + 1"
    by (simp add: unat_word_ariths)
  with small show "((irq_val, i + 1), (irq_val, i)) \<in> measure (\<lambda>(irq_val, i). 4 - unat i)"
    by simp
qed

declare sm_from_interrupt_loop.simps [simp del]

text \<open>\<open>sm_from_interrupt\<close>: the loop from 0, then \<open>assert(i != 4)\<close>. The parameter \<open>ir\<close> is not used.\<close>

definition sm_from_interrupt :: "u32 \<Rightarrow> u32 \<Rightarrow> error + u32" where
  "sm_from_interrupt irq_val ir =
     (let i = sm_from_interrupt_loop irq_val 0
      in if i \<noteq> 4 then Inr i else Inl AssertionFailure)"

definition relative_interrupt :: "u32 \<Rightarrow> u32 \<Rightarrow> u32" where
  "relative_interrupt ir sm =
     (let retval = ir AND 0x03;
          retval = retval + sm;
          retval = retval mod 4;
          retval = retval OR (ir AND 0xfffffffc)
      in retval)"

definition index_for :: "pio_hw \<Rightarrow> u32 \<Rightarrow> nat" where
  "index_for pio sm = unat (PIO_NUM pio * 4 + sm)"

definition interrupt_source :: "u32 \<Rightarrow> u32 \<Rightarrow> u32" where
  "interrupt_source is ir = is + ir"

section \<open>Platform calls and table accesses\<close>

definition emit :: "'h event \<Rightarrow> 'h world \<Rightarrow> 'h world" where
  "emit e s = s\<lparr>trace := trace s @ [e]\<rparr>"

text \<open>
  The wrappers \<open>_pio_set_irq0_source_enabled\<close>, \<open>_pio_set_irq1_source_enabled\<close> and
  \<open>_pio_interrupt_clear\<close> forward to the platform function of the same name; so do the
  direct calls of \<open>irq_add_shared_handler\<close> and \<open>irq_set_enabled\<close>.
\<close>

definition pio_set_irq0_source_enabled :: "pio_hw \<Rightarrow> u32 \<Rightarrow> bool \<Rightarrow> 'h world \<Rightarrow> 'h world" where
  "pio_set_irq0_source_enabled pio source enabled s =
     emit (PioSetIrq0SourceEnabled (PIO_NUM pio) source enabled) s"

definition pio_set_irq1_source_enabled :: "pio_hw \<Rightarrow> u32 \<Rightarrow> bool \<Rightarrow> 'h world \<Rightarrow> 'h world" where
  "pio_set_irq1_source_enabled pio source enabled s =
     emit (PioSetIrq1SourceEnabled (PIO_NUM pio) source enabled) s"

definition pio_interrupt_clear :: "pio_hw \<Rightarrow> u32 \<Rightarrow> 'h world \<Rightarrow> 'h world" where
  "pio_interrupt_clear pio ir s = emit (PioInterruptClear (PIO_NUM pio) ir) s"

definition irq_add_shared_handler ::
  "u32 \<Rightarrow> irq_handler_t option \<Rightarrow> u32 \<Rightarrow> 'h world \<Rightarrow> 'h world" where
  "irq_add_shared_handler num handler order_priority s =
     emit (IrqAddSharedHandler num handler order_priority) s"

definition irq_set_enabled :: "u32 \<Rightarrow> bool \<Rightarrow> 'h world \<Rightarrow> 'h world" where
  "irq_set_enabled num enabled s = emit (IrqSetEnabled num enabled) s"

text \<open>\<open>handlers_[idx]\<close> as a value and as the target of an assignment.\<close>

definition load_handler :: "nat \<Rightarrow> 'h world \<Rightarrow> (error + 'h option) \<times> 'h world" where
  "load_handler idx s =
     (if idx < length (handlers s)
      then (Inr (handlers s ! idx), emit (HandlersLoad idx) s)
      else (Inl OutOfBounds, s))"

definition store_handler :: "nat \<Rightarrow> 'h option \<Rightarrow> 'h world \<Rightarrow> (error + unit) \<times> 'h world" where
  "store_handler idx v s =
     (if idx < length (handlers s)
      then (Inr (), emit (HandlersStore idx v) (s\<lparr>handlers := (handlers s)[idx := v]\<rparr>))
      else (Inl OutOfBounds, s))"

text \<open>
  \<open>(*handler)()\<close>: the handler object is code of the application; its call is recorded and
  its own effects are not part of the model.
\<close>

definition invoke :: "'h \<Rightarrow> 'h world \<Rightarrow> 'h world" where
  "invoke h s = emit (Invoke h) s"

section \<open>The class \<open>pio_irq<H, interrupt_number>\<close>\<close>

text \<open>The table at program start: \<open>NUM_PIOS * 4\<close> null pointers, and nothing done yet.\<close>

definition initial_world :: "nat \<Rightarrow> 'h world" where
  "initial_world num_pios = \<lparr>handlers = replicate (num_pios * 4) None, trace = []\<rparr>"

definition register_interrupt ::
  "platform \<Rightarrow> u32 \<Rightarrow> u32 \<Rightarrow> pio_hw \<Rightarrow> u32 \<Rightarrow> bool \<Rightarrow> 'h world \<Rightarrow> (error + unit) \<times> 'h world" where
  "register_interrupt plat interrupt_number irq_channel pio sm enable s =
     (if \<not> irq_channel < 2 then (Inl AssertionFailure, s)
      else
        let irq_num = PIO0_IRQ_0 plat + 2 * PIO_NUM pio + irq_channel;
            s1 = (if irq_channel = 0
                  then pio_set_irq0_source_enabled pio
                         (interrupt_source (pis_interrupt0 plat)
                            (relative_interrupt interrupt_number sm)) True s
                  else pio_set_irq1_source_enabled pio
                         (interrupt_source (pis_interrupt0 plat)
                            (relative_interrupt interrupt_number sm)) True s);
            handler = (if PIO_NUM pio = 0 then Some Interrupt_handler_PIO0
                       else if PIO_NUM pio = 1 then Some Interrupt_handler_PIO1
                       else if 2 < NUM_PIOS plat \<and> PIO_NUM pio = 2
                         then Some Interrupt_handler_PIO2
                       else None);
            s2 = irq_add_shared_handler irq_num handler
                   (PICO_SHARED_IRQ_HANDLER_DEFAULT_ORDER_PRIORITY plat) s1;
            s3 = (if enable then irq_set_enabled irq_num True s2 else s2)
        in (Inr (), s3))"

definition register_handler ::
  "pio_hw \<Rightarrow> u32 \<Rightarrow> 'h option \<Rightarrow> bool \<Rightarrow> 'h world \<Rightarrow> (error + bool) \<times> 'h world" where
  "register_handler pio sm handler set' s =
     (let idx = index_for pio sm
      in case load_handler idx s of
           (Inl e, s1) \<Rightarrow> (Inl e, s1)
         | (Inr old, s1) \<Rightarrow>
             (case store_handler idx (if set' then handler else None) s1 of
                (Inl e, s2) \<Rightarrow> (Inl e, s2)
              | (Inr _, s2) \<Rightarrow> (Inr (if set' then old = None else True), s2)))"

definition interrupt_handler :: "u32 \<Rightarrow> pio_hw \<Rightarrow> 'h world \<Rightarrow> (error + unit) \<times> 'h world" where
  "interrupt_handler interrupt_number pio s =
     (if irq pio = 0 then (Inr (), s)
      else if \<not> irq pio \<noteq> 0 then (Inl AssertionFailure, s)
      else
        case sm_from_interrupt (irq pio) interrupt_number of
          Inl e \<Rightarrow> (Inl e, s)
        | Inr sm \<Rightarrow>
            let ir = relative_interrupt interrupt_number sm;
                s1 = pio_interrupt_clear pio ir s
            in case load_handler (index_for pio sm) s1 of
                 (Inl e, s2) \<Rightarrow> (Inl e, s2)
               | (Inr handler, s2) \<Rightarrow>
                   (case handler of
                      None \<Rightarrow> (Inr (), s2)
                    | Some h \<Rightarrow> (Inr (), invoke h s2)))"

text \<open>
  The entry points installed at the vectors: \<open>interrupt_handler_PIO0\<close> is
  \<open>interrupt_handler(pio0)\<close> and so on; the argument \<open>irq_val\<close> is what the block's
  raised-flag register holds when the vector fires.
\<close>

definition interrupt_handler_PIO0 :: "u32 \<Rightarrow> u32 \<Rightarrow> 'h world \<Rightarrow> (error + unit) \<times> 'h world" where
  "interrupt_handler_PIO0 interrupt_number irq_val s =
     interrupt_handler interrupt_number \<lparr>PIO_NUM = 0, irq = irq_val\<rparr> s"

definition interrupt_handler_PIO1 :: "u32 \<Rightarrow> u32 \<Rightarrow> 'h world \<Rightarrow> (error + unit) \<times> 'h world" where
  "interrupt_handler_PIO1 interrupt_number irq_val s =
     interrupt_handler interrupt_number \<lparr>PIO_NUM = 1, irq = irq_val\<rparr> s"

definition interrupt_handler_PIO2 :: "u32 \<Rightarrow> u32 \<Rightarrow> 'h world \<Rightarrow> (error + unit) \<times> 'h world" where
  "interrupt_handler_PIO2 interrupt_number irq_val s =
     interrupt_handler interrupt_number \<lparr>PIO_NUM = 2, irq = irq_val\<rparr> s"

section \<open>Conditions used by the theorems\<close>

text \<open>
  A table of the size the source declares, \<open>NUM_PIOS * 4\<close> with two or three blocks, and a
  peripheral instance that is one of these blocks.
\<close>

definition valid_pio :: "nat \<Rightarrow> pio_hw \<Rightarrow> 'h world \<Rightarrow> bool" where
  "valid_pio num_pios pio s \<longleftrightarrow>
     (num_pios = 2 \<or> num_pios = 3) \<and> unat (PIO_NUM pio) < num_pios \<and>
     length (handlers s) = num_pios * 4"

text \<open>
  The hardware convention that the source states above \<open>relative_interrupt\<close> and follows
  when \<open>register_interrupt\<close> enables the source of a state machine: state machine \<open>sm\<close>,
  raising the interrupt \<open>interrupt_number\<close> relative to itself, sets the flag
  \<open>relative_interrupt interrupt_number sm\<close>. This is the raised-flag word with that flag alone.
\<close>

definition fired_by :: "u32 \<Rightarrow> u32 \<Rightarrow> u32" where
  "fired_by interrupt_number sm = push_bit (unat (relative_interrupt interrupt_number sm)) 1"

section \<open>Facts about the index arithmetic\<close>

subsection \<open>The resolution loop\<close>

lemma sm_from_interrupt_loop_step:
  "i < 4 \<Longrightarrow> sm_from_interrupt_loop irq_val i =
     (if bit irq_val (unat i) then i else sm_from_interrupt_loop irq_val (i + 1))"
  by (subst sm_from_interrupt_loop.simps) (simp add: bit_iff_and_push_bit_not_eq_0)

lemma sm_from_interrupt_loop_exit:
  "\<not> i < 4 \<Longrightarrow> sm_from_interrupt_loop irq_val i = i"
  by (subst sm_from_interrupt_loop.simps) simp

lemma sm_from_interrupt_loop_unrolled:
  "sm_from_interrupt_loop irq_val 0 =
     (if bit irq_val 0 then 0 else if bit irq_val 1 then 1
      else if bit irq_val 2 then 2 else if bit irq_val 3 then 3 else 4)"
  using sm_from_interrupt_loop_step [of 0 irq_val] sm_from_interrupt_loop_step [of 1 irq_val]
    sm_from_interrupt_loop_step [of 2 irq_val] sm_from_interrupt_loop_step [of 3 irq_val]
    sm_from_interrupt_loop_exit [of 4 irq_val]
  by simp

lemma sm_from_interrupt_cases:
  "sm_from_interrupt irq_val ir =
     (if bit irq_val 0 then Inr 0 else if bit irq_val 1 then Inr 1
      else if bit irq_val 2 then Inr 2 else if bit irq_val 3 then Inr 3
      else Inl AssertionFailure)"
  by (simp add: sm_from_interrupt_def sm_from_interrupt_loop_unrolled)

lemma less_4_cases: "k < (4 :: nat) \<longleftrightarrow> k = 0 \<or> k = 1 \<or> k = 2 \<or> k = 3"
  by arith

lemma less_3_cases: "k < (3 :: nat) \<longleftrightarrow> k = 0 \<or> k = 1 \<or> k = 2"
  by arith

lemma bit_low4: "bit ((w :: u32) AND 0xF) k \<longleftrightarrow> k < 4 \<and> bit w k"
proof -
  have "(0xF :: u32) = mask 4"
    by (simp add: mask_eq_exp_minus_1)
  then have "bit (w AND 0xF) k \<longleftrightarrow> bit (w AND mask 4) k"
    by (simp only:)
  also have "\<dots> \<longleftrightarrow> k < 4 \<and> bit w k"
    by (auto simp: bit_and_iff bit_mask_iff)
  finally show ?thesis .
qed

lemma low4_eq_0_iff:
  "(w :: u32) AND 0xF = 0 \<longleftrightarrow> \<not> bit w 0 \<and> \<not> bit w 1 \<and> \<not> bit w 2 \<and> \<not> bit w 3"
proof -
  have "w AND 0xF = 0 \<longleftrightarrow> (\<forall>k. \<not> bit (w AND 0xF) k)"
  proof
    assume "w AND 0xF = 0"
    then show "\<forall>k. \<not> bit (w AND 0xF) k" by simp
  next
    assume "\<forall>k. \<not> bit (w AND 0xF) k"
    then show "w AND 0xF = 0" by (intro bit_eqI) simp
  qed
  also have "\<dots> \<longleftrightarrow> (\<forall>k. k < 4 \<longrightarrow> \<not> bit w k)"
    by (simp only: bit_low4) blast
  also have "\<dots> \<longleftrightarrow> \<not> bit w 0 \<and> \<not> bit w 1 \<and> \<not> bit w 2 \<and> \<not> bit w 3"
    by (simp only: less_4_cases) blast
  finally show ?thesis .
qed

text \<open>
  What \<open>sm_from_interrupt\<close> returns, for every input: the failed assertion when none of
  the bits 0 to 3 is set, and the position of the lowest of them that is set otherwise.
\<close>

lemma sm_from_interrupt_none:
  "irq_val AND 0xF = 0 \<Longrightarrow> sm_from_interrupt irq_val ir = Inl AssertionFailure"
  by (simp add: low4_eq_0_iff sm_from_interrupt_cases)

lemma sm_from_interrupt_some:
  assumes "irq_val AND 0xF \<noteq> 0"
  shows "\<exists>i. sm_from_interrupt irq_val ir = Inr i \<and> i < 4 \<and> bit irq_val (unat i) \<and>
             (\<forall>j < unat i. \<not> bit irq_val j)"
proof -
  from assms consider
      (0) "bit irq_val 0"
    | (1) "\<not> bit irq_val 0" "bit irq_val 1"
    | (2) "\<not> bit irq_val 0" "\<not> bit irq_val 1" "bit irq_val 2"
    | (3) "\<not> bit irq_val 0" "\<not> bit irq_val 1" "\<not> bit irq_val 2" "bit irq_val 3"
    by (auto simp only: low4_eq_0_iff)
  then show ?thesis
  proof cases
    case 0
    then have "sm_from_interrupt irq_val ir = Inr 0"
      by (simp add: sm_from_interrupt_cases)
    with 0 show ?thesis by simp
  next
    case 1
    then have "sm_from_interrupt irq_val ir = Inr 1"
      by (simp add: sm_from_interrupt_cases)
    with 1 show ?thesis by simp
  next
    case 2
    then have "sm_from_interrupt irq_val ir = Inr 2"
      by (simp add: sm_from_interrupt_cases)
    moreover have "\<forall>j < 2. \<not> bit irq_val j"
      using 2 by (auto simp: less_2_cases_iff)
    ultimately show ?thesis using 2 by simp
  next
    case 3
    then have "sm_from_interrupt irq_val ir = Inr 3"
      by (simp add: sm_from_interrupt_cases)
    moreover have "\<forall>j < 3. \<not> bit irq_val j"
      using 3 by (auto simp: less_3_cases)
    ultimately show ?thesis using 3 by simp
  qed
qed

lemma sm_from_interrupt_one_bit:
  assumes "b < 4" and "irq_val AND 0xF = push_bit b 1"
  shows "sm_from_interrupt irq_val ir = Inr (of_nat b)"
proof -
  have bits: "bit irq_val k \<longleftrightarrow> k = b" if "k < 4" for k
  proof -
    have "bit irq_val k \<longleftrightarrow> bit (irq_val AND 0xF) k"
      using that by (simp add: bit_low4)
    also have "\<dots> \<longleftrightarrow> bit (push_bit b 1 :: u32) k"
      by (simp only: assms(2))
    also have "\<dots> \<longleftrightarrow> k = b"
      using that assms(1) by (auto simp: bit_exp_iff possible_bit_word)
    finally show ?thesis .
  qed
  from assms(1) consider "b = 0" | "b = 1" | "b = 2" | "b = 3"
    by (auto simp: less_4_cases)
  then show ?thesis
    by cases (simp_all add: sm_from_interrupt_cases bits)
qed

subsection \<open>The relative flag index\<close>

lemma mod_4_take_bit: "(x :: u32) mod 4 = take_bit 2 x"
  by (simp add: take_bit_eq_mod)

lemma and_3_take_bit: "(x :: u32) AND 3 = take_bit 2 x"
  by (simp add: take_bit_eq_mask mask_eq_exp_minus_1)

lemma bit_fffffffc: "bit (0xfffffffc :: u32) k \<longleftrightarrow> 2 \<le> k \<and> k < 32"
proof -
  have "(0xfffffffc :: u32) = - (2 ^ 2)"
    by simp
  then have "(0xfffffffc :: u32) = NOT (mask 2)"
    by (simp only: minus_exp_eq_not_mask)
  then have "bit (0xfffffffc :: u32) k \<longleftrightarrow> bit (NOT (mask 2 :: u32)) k"
    by (simp only:)
  also have "\<dots> \<longleftrightarrow> 2 \<le> k \<and> k < 32"
    by (auto simp: bit_not_iff bit_mask_iff)
  finally show ?thesis .
qed

lemma unat_take_bit_2: "unat (take_bit 2 (w :: u32)) = unat w mod 4"
  by (simp add: take_bit_eq_mod unat_mod)

lemma unat_add_mod_4: "unat ((a :: u32) + b) mod 4 = (unat a + unat b) mod 4"
proof -
  have "unat (a + b) = (unat a + unat b) mod 2 ^ 32"
    by (simp add: unat_word_ariths)
  moreover have "(4 :: nat) dvd 2 ^ 32"
    by simp
  ultimately show ?thesis
    by (simp only: mod_mod_cancel)
qed

lemma take_bit_2_add_left: "take_bit 2 (take_bit 2 (a :: u32) + b) = take_bit 2 (a + b)"
proof (rule word_unat_eq_iff [THEN iffD2])
  show "unat (take_bit 2 (take_bit 2 a + b)) = unat (take_bit 2 (a + b))"
    by (simp only: unat_take_bit_2 unat_add_mod_4 mod_add_left_eq)
qed

lemma relative_interrupt_eq:
  "relative_interrupt ir sm = take_bit 2 (ir + sm) OR (ir AND 0xfffffffc)"
  by (simp only: relative_interrupt_def Let_def mod_4_take_bit and_3_take_bit take_bit_2_add_left)

lemma bit_relative_interrupt:
  "bit (relative_interrupt ir sm) k \<longleftrightarrow> (if k < 2 then bit (ir + sm) k else bit ir k)"
  unfolding relative_interrupt_eq bit_or_iff bit_and_iff bit_take_bit_iff bit_fffffffc
  by (auto dest: bit_imp_le_length)

lemma relative_interrupt_low: "relative_interrupt ir sm AND 3 = take_bit 2 (ir + sm)"
  unfolding and_3_take_bit
  by (rule bit_word_eqI) (simp add: bit_take_bit_iff bit_relative_interrupt)

lemma unat_relative_interrupt_low:
  "unat (relative_interrupt ir sm AND 3) = (unat ir + unat sm) mod 4"
  by (simp only: relative_interrupt_low unat_take_bit_2 unat_add_mod_4)

lemma word_le_3_bits: "(w :: u32) \<le> 3 \<Longrightarrow> 2 \<le> k \<Longrightarrow> \<not> bit w k"
proof
  assume le: "w \<le> 3" and k: "2 \<le> k" and b: "bit w k"
  from le have "w < 4"
    by (simp add: word_le_nat_alt word_less_nat_alt)
  then have "w < 2 ^ 2"
    by simp
  then have "w AND mask 2 = w"
    by (rule less_mask_eq)
  then have "bit w k \<longleftrightarrow> bit (w AND mask 2) k"
    by (simp only:)
  then have "bit w k \<longleftrightarrow> bit w k \<and> k < 2"
    by (simp only: bit_and_iff bit_mask_iff) auto
  with b k show False
    by simp
qed

text \<open>For an interrupt number in 0..3 the result is the sum modulo 4 and nothing else.\<close>

lemma relative_interrupt_small:
  assumes "ir \<le> 3"
  shows "relative_interrupt ir sm = take_bit 2 (ir + sm)"
proof (rule bit_word_eqI)
  fix k
  show "bit (relative_interrupt ir sm) k = bit (take_bit 2 (ir + sm)) k"
    using word_le_3_bits [OF assms, of k]
    by (auto simp: bit_relative_interrupt bit_take_bit_iff)
qed

lemma unat_relative_interrupt_small:
  "ir \<le> 3 \<Longrightarrow> unat (relative_interrupt ir sm) = (unat ir + unat sm) mod 4"
  by (simp only: relative_interrupt_small unat_take_bit_2 unat_add_mod_4)

lemma unat_of_nat_mod_4: "unat (of_nat (k mod 4) :: u32) = k mod 4"
proof -
  have "k mod 4 < 2 ^ 32"
    by (rule less_trans [of _ 4]) simp_all
  then show ?thesis
    by (simp add: unat_of_nat take_bit_nat_eq_self)
qed

lemma relative_interrupt_small_of_nat:
  assumes "n \<le> 3"
  shows "relative_interrupt n sm = of_nat ((unat n + unat sm) mod 4)"
  by (rule word_unat_eq_iff [THEN iffD2])
    (simp only: unat_relative_interrupt_small [OF assms] unat_of_nat_mod_4)

section \<open>Claims about the index arithmetic\<close>

text \<open>
  Claim C1. For every \<open>base\<close> in 0..3 and every \<open>sm\<close> in 0..3, the low two bits of
  \<open>relative_interrupt base sm\<close> are \<open>(base + sm) mod 4\<close>, and every bit above position 1
  is the bit of \<open>base\<close> at that position.
\<close>

theorem relative_interrupt_low_bits_and_high_bits:
  assumes "base \<le> 3" and "sm \<le> 3"
  shows "unat (relative_interrupt base sm AND 3) = (unat base + unat sm) mod 4 \<and>
         (\<forall>k. 2 \<le> k \<longrightarrow> bit (relative_interrupt base sm) k = bit base k)"
  by (simp add: unat_relative_interrupt_low bit_relative_interrupt)

theorem relative_interrupt_low_bits_and_high_bits_witness:
  "(3 :: u32) \<le> 3 \<and> (2 :: u32) \<le> 3 \<and>
   unat (relative_interrupt 3 2 AND 3) = (unat (3 :: u32) + unat (2 :: u32)) mod 4 \<and>
   (2 :: nat) \<le> 2 \<and> bit (relative_interrupt 3 2) 2 = bit (3 :: u32) 2"
proof -
  have b: "(3 :: u32) \<le> 3" and s: "(2 :: u32) \<le> 3"
    by simp_all
  from relative_interrupt_low_bits_and_high_bits [OF b s] b s show ?thesis
    by simp
qed

lemma sm_from_interrupt_table:
  "sm_from_interrupt 1 ir = Inr 0 \<and> sm_from_interrupt 2 ir = Inr 1 \<and>
   sm_from_interrupt 4 ir = Inr 2 \<and> sm_from_interrupt 8 ir = Inr 3"
  by (simp add: sm_from_interrupt_cases)

text \<open>
  Claim C3. For a raised-flag word with exactly one bit set among the bits 0 to 3, at
  position \<open>b\<close> (the words 1, 2, 4 and 8, and any word that has these low four bits),
  \<open>sm_from_interrupt\<close> returns \<open>b\<close>, the index of the lowest set bit.
\<close>

theorem sm_from_interrupt_single_bit:
  assumes "b < 4" and "irq_val AND 0xF = push_bit b 1"
  shows "sm_from_interrupt irq_val ir = Inr (of_nat b)"
  using assms by (rule sm_from_interrupt_one_bit)

theorem sm_from_interrupt_single_bit_witness:
  "(2 :: nat) < 4 \<and> (4 :: u32) AND 0xF = push_bit 2 1 \<and> sm_from_interrupt 4 0 = Inr 2"
  using sm_from_interrupt_single_bit [of 2 4 0] by simp


text \<open>
  Claim C4 says that a raised-flag word with more than one bit set among the bits 0 to 3
  makes the resolution fail with an assertion. The word \<open>0b0011\<close> has bits 0 and 1 set
  and \<open>sm_from_interrupt\<close> returns 0 for it.
\<close>

theorem sm_from_interrupt_two_bits_counterexample:
  "bit (3 :: u32) 0 \<and> bit (3 :: u32) 1 \<and> sm_from_interrupt 3 0 = Inr 0 \<and>
   sm_from_interrupt 3 0 \<noteq> Inl AssertionFailure"
  by (simp add: sm_from_interrupt_cases)


text \<open>
  Claim C4, amended. \<open>sm_from_interrupt\<close> fails with the assertion exactly when none of
  the bits 0 to 3 is set; with one or more of them set it returns normally, and the result is
  the index of the lowest one that is set.
\<close>

theorem sm_from_interrupt_assertion:
  "(irq_val AND 0xF = 0 \<longrightarrow> sm_from_interrupt irq_val ir = Inl AssertionFailure) \<and>
   (irq_val AND 0xF \<noteq> 0 \<longrightarrow>
      (\<exists>i. sm_from_interrupt irq_val ir = Inr i \<and> i < 4 \<and> bit irq_val (unat i) \<and>
           (\<forall>j < unat i. \<not> bit irq_val j)))"
  using sm_from_interrupt_none [of irq_val ir] sm_from_interrupt_some [of irq_val ir]
  by blast

theorem sm_from_interrupt_assertion_witness:
  "(16 :: u32) AND 0xF = 0 \<and> sm_from_interrupt 16 0 = Inl AssertionFailure \<and>
   (6 :: u32) AND 0xF \<noteq> 0 \<and>
   (\<exists>i. sm_from_interrupt 6 0 = Inr i \<and> i < 4 \<and> bit (6 :: u32) (unat i) \<and>
        (\<forall>j < unat i. \<not> bit (6 :: u32) j))"
proof -
  have z: "(16 :: u32) AND 0xF = 0" and nz: "(6 :: u32) AND 0xF \<noteq> 0"
    by simp_all
  from sm_from_interrupt_assertion [of 16 0] sm_from_interrupt_assertion [of 6 0] z nz
  show ?thesis
    by blast
qed

text \<open>
  Claim C10. For a raised-flag word with at least one bit set among the bits 0 to 3, the
  result of \<open>sm_from_interrupt\<close> is the same for any two values of \<open>ir\<close>.
\<close>

theorem sm_from_interrupt_ignores_ir:
  assumes "irq_val AND 0xF \<noteq> 0"
  shows "sm_from_interrupt irq_val ir1 = sm_from_interrupt irq_val ir2"
  by (simp add: sm_from_interrupt_def)

theorem sm_from_interrupt_ignores_ir_witness:
  "(5 :: u32) AND 0xF \<noteq> 0 \<and> sm_from_interrupt 5 0 = sm_from_interrupt 5 3"
proof -
  have nz: "(5 :: u32) AND 0xF \<noteq> 0"
    by simp
  from sm_from_interrupt_ignores_ir [OF nz, of 0 3] nz show ?thesis
    by blast
qed

section \<open>Facts about the table and the dispatch\<close>

lemma index_for_valid:
  assumes "valid_pio num_pios pio s" and "sm < 4"
  shows "index_for pio sm = unat (PIO_NUM pio) * 4 + unat sm"
    and "index_for pio sm < length (handlers s)"
proof -
  from assms(1) have p: "unat (PIO_NUM pio) < 3" and n: "unat (PIO_NUM pio) < num_pios"
    and len: "length (handlers s) = num_pios * 4"
    by (auto simp: valid_pio_def)
  from assms(2) have m: "unat sm < 4"
    by (simp add: word_less_nat_alt)
  from p m show eq: "index_for pio sm = unat (PIO_NUM pio) * 4 + unat sm"
    by (simp add: index_for_def unat_word_ariths)
  from n m len show "index_for pio sm < length (handlers s)"
    unfolding eq by arith
qed

lemma sm_from_interrupt_0: "sm_from_interrupt 0 ir = Inl AssertionFailure"
  by (simp add: sm_from_interrupt_cases)

lemma interrupt_handler_resolved:
  assumes "sm_from_interrupt (irq pio) n = Inr sm"
    and "index_for pio sm < length (handlers s)"
  shows "interrupt_handler n pio s =
     (Inr (), s\<lparr>trace := trace s @
        PioInterruptClear (PIO_NUM pio) (relative_interrupt n sm) #
        HandlersLoad (index_for pio sm) #
        (case handlers s ! index_for pio sm of None \<Rightarrow> [] | Some h \<Rightarrow> [Invoke h])\<rparr>)"
proof -
  from assms(1) have "irq pio \<noteq> 0"
    by (auto simp: sm_from_interrupt_0)
  with assms show ?thesis
    by (simp add: interrupt_handler_def pio_interrupt_clear_def load_handler_def invoke_def
        emit_def split: option.split)
qed

lemma interrupt_handler_unresolved:
  assumes "irq pio \<noteq> 0" and "sm_from_interrupt (irq pio) n = Inl e"
  shows "interrupt_handler n pio s = (Inl e, s)"
  using assms by (simp add: interrupt_handler_def)

lemma word_not_less_2: "\<not> (w :: u32) < 2 \<longleftrightarrow> w \<noteq> 0 \<and> w \<noteq> 1"
proof -
  have "w < 2 \<longleftrightarrow> unat w < 2"
    by (simp add: word_less_nat_alt)
  also have "\<dots> \<longleftrightarrow> unat w = 0 \<or> unat w = 1"
    by arith
  also have "\<dots> \<longleftrightarrow> w = 0 \<or> w = 1"
    by (simp add: word_unat_eq_iff)
  finally show ?thesis
    by simp
qed

lemma register_handler_in_range:
  assumes "index_for pio sm < length (handlers s)"
  shows "register_handler pio sm handler set' s =
     (Inr (if set' then handlers s ! index_for pio sm = None else True),
      s\<lparr>handlers := (handlers s)[index_for pio sm := (if set' then handler else None)],
        trace := trace s @ [HandlersLoad (index_for pio sm),
          HandlersStore (index_for pio sm) (if set' then handler else None)]\<rparr>)"
  using assms
  by (simp add: register_handler_def load_handler_def store_handler_def emit_def Let_def)

text \<open>A call of \<open>register_interrupt\<close> on line 1, for block 1 and state machine 2.\<close>

lemma register_interrupt_line_1_example:
  "register_interrupt
     \<lparr>NUM_PIOS = 2, PIO0_IRQ_0 = 7, pis_interrupt0 = 8,
      PICO_SHARED_IRQ_HANDLER_DEFAULT_ORDER_PRIORITY = 0x80\<rparr>
     1 1 \<lparr>PIO_NUM = 1, irq = 0\<rparr> 2 True (initial_world 2 :: nat world) =
     (Inr (), \<lparr>handlers = replicate 8 None,
        trace = [PioSetIrq1SourceEnabled 1 11 True,
                 IrqAddSharedHandler 10 (Some Interrupt_handler_PIO1) 0x80,
                 IrqSetEnabled 10 True]\<rparr>)"
  by (simp add: register_interrupt_def initial_world_def pio_set_irq1_source_enabled_def
      irq_add_shared_handler_def irq_set_enabled_def emit_def interrupt_source_def
      relative_interrupt_def)

lemma fired_by_0_1: "fired_by 0 1 = 2"
  by (simp add: fired_by_def relative_interrupt_def)

lemma fired_by_1_1: "fired_by 1 1 = 4"
  by (simp add: fired_by_def relative_interrupt_def)


section \<open>Claims about the registry, the dispatch and the wiring\<close>

text \<open>
  Claim C7. When the raised-flag register reads zero, \<open>interrupt_handler\<close> returns at
  once: it returns normally, where resolving a state machine from a zero word would fail
  the assertion, and the state is the one it started from, so that no flag is cleared, no
  slot is read and no handler is invoked.
\<close>

theorem interrupt_handler_nothing_raised:
  assumes "irq pio = 0"
  shows "interrupt_handler n pio s = (Inr (), s)"
  using assms by (simp add: interrupt_handler_def)

theorem interrupt_handler_nothing_raised_witness:
  "irq \<lparr>PIO_NUM = 0, irq = 0\<rparr> = 0 \<and>
   interrupt_handler 0 \<lparr>PIO_NUM = 0, irq = 0\<rparr> (initial_world 2 :: nat world) =
     (Inr (), initial_world 2)"
  using interrupt_handler_nothing_raised [of "\<lparr>PIO_NUM = 0, irq = 0\<rparr>" 0 "initial_world 2 :: nat world"]
  by simp

text \<open>
  Claim C8. A call of \<open>register_interrupt\<close> with a line other than 0 and 1 fails the
  assertion and leaves the state as it was: no call into the register layer has been made.
\<close>

theorem register_interrupt_invalid_line:
  assumes "irq_channel \<noteq> 0" and "irq_channel \<noteq> 1"
  shows "register_interrupt plat n irq_channel pio sm enable s = (Inl AssertionFailure, s)"
  using assms by (simp add: register_interrupt_def word_not_less_2)

theorem register_interrupt_invalid_line_witness:
  "(2 :: u32) \<noteq> 0 \<and> (2 :: u32) \<noteq> 1 \<and>
   register_interrupt
     \<lparr>NUM_PIOS = 2, PIO0_IRQ_0 = 7, pis_interrupt0 = 8,
      PICO_SHARED_IRQ_HANDLER_DEFAULT_ORDER_PRIORITY = 0x80\<rparr>
     0 2 \<lparr>PIO_NUM = 0, irq = 0\<rparr> 1 True (initial_world 2 :: nat world) =
     (Inl AssertionFailure, initial_world 2)"
proof -
  have a: "(2 :: u32) \<noteq> 0" and b: "(2 :: u32) \<noteq> 1"
    by simp_all
  from register_interrupt_invalid_line [OF a b] a b show ?thesis
    by simp
qed

text \<open>
  Claim C5. For the slot of a peripheral instance of the build and a state machine in 0..3,
  which is the entry \<open>PIO_NUM(pio) * 4 + sm\<close> of the table, \<open>register_handler\<close> with
  \<open>set = true\<close> stores the reference in that entry, leaves every other entry as it was,
  and returns whether the entry was empty before. When the entry was occupied it returns
  false, and what it leaves behind is what it would have left had the entry been empty: the
  displaced reference is not kept and not returned.
\<close>

theorem register_handler_bind:
  assumes "valid_pio num_pios pio s" and "sm < 4"
  shows "index_for pio sm = unat (PIO_NUM pio) * 4 + unat sm \<and>
         register_handler pio sm handler True s =
           (Inr (handlers s ! (unat (PIO_NUM pio) * 4 + unat sm) = None),
            s\<lparr>handlers := (handlers s)[unat (PIO_NUM pio) * 4 + unat sm := handler],
              trace := trace s @ [HandlersLoad (unat (PIO_NUM pio) * 4 + unat sm),
                HandlersStore (unat (PIO_NUM pio) * 4 + unat sm) handler]\<rparr>) \<and>
         (\<forall>old. handlers s ! (unat (PIO_NUM pio) * 4 + unat sm) = Some old \<longrightarrow>
            fst (register_handler pio sm handler True s) = Inr False \<and>
            snd (register_handler pio sm handler True s) =
              snd (register_handler pio sm handler True
                (s\<lparr>handlers := (handlers s)[unat (PIO_NUM pio) * 4 + unat sm := None]\<rparr>)))"
proof -
  let ?idx = "index_for pio sm"
  note slot = index_for_valid [OF assms]
  from slot(2) have r: "?idx < length (handlers s)" .
  then have r': "?idx < length (handlers (s\<lparr>handlers := (handlers s)[?idx := None]\<rparr>))"
    by simp
  have main: "register_handler pio sm handler True s =
           (Inr (handlers s ! ?idx = None),
            s\<lparr>handlers := (handlers s)[?idx := handler],
              trace := trace s @ [HandlersLoad ?idx, HandlersStore ?idx handler]\<rparr>) \<and>
         (\<forall>old. handlers s ! ?idx = Some old \<longrightarrow>
            fst (register_handler pio sm handler True s) = Inr False \<and>
            snd (register_handler pio sm handler True s) =
              snd (register_handler pio sm handler True
                (s\<lparr>handlers := (handlers s)[?idx := None]\<rparr>)))"
    by (simp add: register_handler_in_range [OF r] register_handler_in_range [OF r'])
  from slot(1) main [unfolded slot(1)] show ?thesis
    by (rule conjI)
qed

theorem register_handler_bind_witness:
  "valid_pio 2 \<lparr>PIO_NUM = 1, irq = 0\<rparr>
     \<lparr>handlers = [None, Some (30 :: nat), None, None, None, Some 10, None, None], trace = []\<rparr> \<and>
   (1 :: u32) < 4 \<and>
   index_for \<lparr>PIO_NUM = 1, irq = 0\<rparr> 1 = 5 \<and>
   register_handler \<lparr>PIO_NUM = 1, irq = 0\<rparr> 1 (Some 20) True
     \<lparr>handlers = [None, Some (30 :: nat), None, None, None, Some 10, None, None], trace = []\<rparr> =
     (Inr False,
      \<lparr>handlers = [None, Some 30, None, None, None, Some 20, None, None],
       trace = [HandlersLoad 5, HandlersStore 5 (Some 20)]\<rparr>) \<and>
   snd (register_handler \<lparr>PIO_NUM = 1, irq = 0\<rparr> 1 (Some 20) True
     \<lparr>handlers = [None, Some (30 :: nat), None, None, None, Some 10, None, None], trace = []\<rparr>) =
   snd (register_handler \<lparr>PIO_NUM = 1, irq = 0\<rparr> 1 (Some 20) True
     \<lparr>handlers = [None, Some 30, None, None, None, None, None, None], trace = []\<rparr>)"
proof -
  let ?pio = "\<lparr>PIO_NUM = 1, irq = 0\<rparr>"
  let ?s = "\<lparr>handlers = [None, Some (30 :: nat), None, None, None, Some 10, None, None], trace = []\<rparr>"
  have v: "valid_pio 2 ?pio ?s"
    by (simp add: valid_pio_def)
  have m: "(1 :: u32) < 4"
    by simp
  have i: "unat (PIO_NUM ?pio) * 4 + unat (1 :: u32) = 5"
    by simp
  have five: "(5 :: nat) = Suc (Suc (Suc (Suc (Suc 0))))"
    by simp
  have old: "handlers ?s ! 5 = Some 10"
    by simp
  note t = register_handler_bind [OF v m, of "Some 20", unfolded i]
  from t have x: "index_for ?pio 1 = 5"
    by blast
  from t have e: "register_handler ?pio 1 (Some 20) True ?s =
      (Inr False,
       \<lparr>handlers = [None, Some 30, None, None, None, Some 20, None, None],
        trace = [HandlersLoad 5, HandlersStore 5 (Some 20)]\<rparr>)"
    by (simp add: five)
  from t old
  have d: "snd (register_handler ?pio 1 (Some 20) True ?s) =
      snd (register_handler ?pio 1 (Some 20) True (?s\<lparr>handlers := (handlers ?s)[5 := None]\<rparr>))"
    by blast
  have u: "?s\<lparr>handlers := (handlers ?s)[5 := None]\<rparr> =
      \<lparr>handlers = [None, Some 30, None, None, None, None, None, None], trace = []\<rparr>"
    by (simp add: five)
  from v m x e d [unfolded u] show ?thesis
    by blast
qed

text \<open>
  What the dispatch does for a raised-flag word with at least one of the bits 0 to 3 set:
  it first clears the flag \<open>relative_interrupt interrupt_number sm\<close> of the resolved state
  machine \<open>sm\<close>, which is \<open>(interrupt_number + sm) mod 4\<close> for an interrupt number in
  0..3, then reads the slot of \<open>sm\<close>, and invokes the handler found there; with no handler
  bound the clearing and the read are all it does. For a non-zero word with none of these
  bits set the resolution fails its assertion.
\<close>

lemma interrupt_handler_clears_before_lookup:
  assumes "valid_pio num_pios pio s"
  shows "(irq pio AND 0xF \<noteq> 0 \<longrightarrow>
            (\<exists>sm. sm_from_interrupt (irq pio) n = Inr sm \<and>
               interrupt_handler n pio s =
                 (Inr (), s\<lparr>trace := trace s @
                    PioInterruptClear (PIO_NUM pio) (relative_interrupt n sm) #
                    HandlersLoad (index_for pio sm) #
                    (case handlers s ! index_for pio sm of
                       None \<Rightarrow> [] | Some h \<Rightarrow> [Invoke h])\<rparr>) \<and>
               (n \<le> 3 \<longrightarrow> unat (relative_interrupt n sm) = (unat n + unat sm) mod 4))) \<and>
         (irq pio \<noteq> 0 \<and> irq pio AND 0xF = 0 \<longrightarrow>
            interrupt_handler n pio s = (Inl AssertionFailure, s))"
proof (intro conjI impI)
  assume "irq pio AND 0xF \<noteq> 0"
  then obtain sm where sm: "sm_from_interrupt (irq pio) n = Inr sm" and lt: "sm < 4"
    using sm_from_interrupt_some [of "irq pio" n] by blast
  from assms lt have "index_for pio sm < length (handlers s)"
    by (rule index_for_valid(2))
  with sm have "interrupt_handler n pio s =
      (Inr (), s\<lparr>trace := trace s @
         PioInterruptClear (PIO_NUM pio) (relative_interrupt n sm) #
         HandlersLoad (index_for pio sm) #
         (case handlers s ! index_for pio sm of None \<Rightarrow> [] | Some h \<Rightarrow> [Invoke h])\<rparr>)"
    by (rule interrupt_handler_resolved)
  with sm show "\<exists>sm. sm_from_interrupt (irq pio) n = Inr sm \<and>
      interrupt_handler n pio s =
        (Inr (), s\<lparr>trace := trace s @
           PioInterruptClear (PIO_NUM pio) (relative_interrupt n sm) #
           HandlersLoad (index_for pio sm) #
           (case handlers s ! index_for pio sm of None \<Rightarrow> [] | Some h \<Rightarrow> [Invoke h])\<rparr>) \<and>
      (n \<le> 3 \<longrightarrow> unat (relative_interrupt n sm) = (unat n + unat sm) mod 4)"
    by (auto simp: unat_relative_interrupt_small)
next
  assume "irq pio \<noteq> 0 \<and> irq pio AND 0xF = 0"
  then show "interrupt_handler n pio s = (Inl AssertionFailure, s)"
    by (simp add: interrupt_handler_unresolved sm_from_interrupt_none)
qed

lemma interrupt_handler_clears_before_lookup_example:
  "valid_pio 2 \<lparr>PIO_NUM = 1, irq = 0x4\<rparr> (initial_world 2 :: nat world) \<and>
   (0x4 :: u32) AND 0xF \<noteq> 0 \<and>
   interrupt_handler 3 \<lparr>PIO_NUM = 1, irq = 0x4\<rparr> (initial_world 2 :: nat world) =
     (Inr (), \<lparr>handlers = replicate 8 None,
        trace = [PioInterruptClear 1 1, HandlersLoad 6]\<rparr>) \<and>
   (0x20 :: u32) \<noteq> 0 \<and> (0x20 :: u32) AND 0xF = 0 \<and>
   valid_pio 2 \<lparr>PIO_NUM = 1, irq = 0x20\<rparr> (initial_world 2 :: nat world) \<and>
   interrupt_handler 3 \<lparr>PIO_NUM = 1, irq = 0x20\<rparr> (initial_world 2 :: nat world) =
     (Inl AssertionFailure, initial_world 2)"
proof -
  let ?s = "initial_world 2 :: nat world"
  have v: "valid_pio 2 \<lparr>PIO_NUM = 1, irq = 0x4\<rparr> ?s"
    and v': "valid_pio 2 \<lparr>PIO_NUM = 1, irq = 0x20\<rparr> ?s"
    by (simp_all add: valid_pio_def initial_world_def)
  have nz: "(0x4 :: u32) AND 0xF \<noteq> 0" and z: "(0x20 :: u32) \<noteq> 0" "(0x20 :: u32) AND 0xF = 0"
    by simp_all
  have sm: "sm_from_interrupt 0x4 3 = Inr 2"
    by (simp add: sm_from_interrupt_cases)
  have ir: "relative_interrupt 3 2 = 1"
    by (simp add: relative_interrupt_def)
  have idx: "index_for \<lparr>PIO_NUM = 1, irq = 0x4\<rparr> 2 = 6"
    by (simp add: index_for_def)
  from interrupt_handler_clears_before_lookup [OF v, of 3] nz
  have a: "interrupt_handler 3 \<lparr>PIO_NUM = 1, irq = 0x4\<rparr> ?s =
     (Inr (), \<lparr>handlers = replicate 8 None, trace = [PioInterruptClear 1 1, HandlersLoad 6]\<rparr>)"
    by (simp add: sm ir idx initial_world_def)
  from interrupt_handler_clears_before_lookup [OF v', of 3] z
  have b: "interrupt_handler 3 \<lparr>PIO_NUM = 1, irq = 0x20\<rparr> ?s = (Inl AssertionFailure, ?s)"
    by simp
  from v v' nz z a b show ?thesis
    by blast
qed

text \<open>
  Claim C2 is about every non-zero raised-flag word. The register \<open>pio->irq\<close> has flags
  above the four that \<open>sm_from_interrupt\<close> looks at. With flag 4 alone raised the register
  reads \<open>0x10\<close>: the guard \<open>pio->irq == 0U\<close> lets the word through,
  \<open>assert (pio->irq)\<close> holds, the loop of \<open>sm_from_interrupt\<close> ends with \<open>i = 4\<close>, and
  \<open>assert(i != 4)\<close> fails. The dispatch does not return, and no flag has been cleared.
\<close>

theorem interrupt_handler_flag_4_alone:
  "irq \<lparr>PIO_NUM = 0, irq = 0x10\<rparr> \<noteq> 0 \<and>
   sm_from_interrupt (irq \<lparr>PIO_NUM = 0, irq = 0x10\<rparr>) 0 = Inl AssertionFailure \<and>
   interrupt_handler 0 \<lparr>PIO_NUM = 0, irq = 0x10\<rparr> (initial_world 2 :: nat world) =
     (Inl AssertionFailure, initial_world 2)"
  by (simp add: interrupt_handler_def sm_from_interrupt_cases)

text \<open>
  Claim C9. For an interrupt number \<open>n\<close> in 0..3 and a raised-flag word with exactly one
  of the bits 0 to 3 set, at position \<open>b\<close>, \<open>interrupt_handler\<close> takes \<open>b\<close> as the
  state machine: it clears the flag \<open>(n + b) mod 4\<close> and reads the slot
  \<open>PIO_NUM(pio) * 4 + b\<close>. For \<open>n \<noteq> 0\<close>, a state machine \<open>sm\<close> whose flag
  \<open>(n + sm) mod 4\<close> is \<open>b\<close> is not \<open>b\<close>, and its slot is not the one read.
\<close>

theorem interrupt_handler_uses_raw_bit_position:
  assumes "valid_pio num_pios pio s" and "n \<le> 3" and "b \<le> 3"
    and "irq pio AND 0xF = push_bit (unat b) 1"
  shows "interrupt_handler n pio s =
           (Inr (), s\<lparr>trace := trace s @
              PioInterruptClear (PIO_NUM pio) (of_nat ((unat n + unat b) mod 4)) #
              HandlersLoad (unat (PIO_NUM pio) * 4 + unat b) #
              (case handlers s ! (unat (PIO_NUM pio) * 4 + unat b) of
                 None \<Rightarrow> [] | Some h \<Rightarrow> [Invoke h])\<rparr>) \<and>
         (\<forall>sm. n \<noteq> 0 \<and> sm \<le> 3 \<and> (unat n + unat sm) mod 4 = unat b \<longrightarrow>
            sm \<noteq> b \<and> index_for pio sm \<noteq> unat (PIO_NUM pio) * 4 + unat b)"
proof (intro conjI allI impI)
  from assms(3) have ub: "unat b < 4"
    by (simp add: word_le_nat_alt)
  then have b4: "b < 4"
    by (simp add: word_less_nat_alt)
  from ub assms(4) have "sm_from_interrupt (irq pio) n = Inr (of_nat (unat b))"
    by (rule sm_from_interrupt_one_bit)
  then have sm: "sm_from_interrupt (irq pio) n = Inr b"
    by simp
  note idx = index_for_valid [OF assms(1) b4]
  from sm idx(2) have "interrupt_handler n pio s =
      (Inr (), s\<lparr>trace := trace s @
         PioInterruptClear (PIO_NUM pio) (relative_interrupt n b) #
         HandlersLoad (index_for pio b) #
         (case handlers s ! index_for pio b of None \<Rightarrow> [] | Some h \<Rightarrow> [Invoke h])\<rparr>)"
    by (rule interrupt_handler_resolved)
  then show "interrupt_handler n pio s =
      (Inr (), s\<lparr>trace := trace s @
         PioInterruptClear (PIO_NUM pio) (of_nat ((unat n + unat b) mod 4)) #
         HandlersLoad (unat (PIO_NUM pio) * 4 + unat b) #
         (case handlers s ! (unat (PIO_NUM pio) * 4 + unat b) of
            None \<Rightarrow> [] | Some h \<Rightarrow> [Invoke h])\<rparr>)"
    by (simp only: idx(1) relative_interrupt_small_of_nat [OF assms(2)])
next
  fix sm :: u32
  assume h: "n \<noteq> 0 \<and> sm \<le> 3 \<and> (unat n + unat sm) mod 4 = unat b"
  from assms(2) h have un: "0 < unat n" "unat n \<le> 3"
    by (simp_all add: word_le_nat_alt unat_gt_0)
  from h have us: "unat sm \<le> 3"
    by (simp add: word_le_nat_alt)
  from un us h have ne: "unat sm \<noteq> unat b"
    by auto presburger
  then show "sm \<noteq> b"
    by auto
  from us have "sm < 4"
    by (simp add: word_less_nat_alt)
  with assms(1) have "index_for pio sm = unat (PIO_NUM pio) * 4 + unat sm"
    by (rule index_for_valid(1))
  with ne show "index_for pio sm \<noteq> unat (PIO_NUM pio) * 4 + unat b"
    by simp
qed

theorem interrupt_handler_uses_raw_bit_position_witness:
  "valid_pio 2 \<lparr>PIO_NUM = 1, irq = 0x4\<rparr>
     \<lparr>handlers = [None, None, None, None, None, Some (10 :: nat), Some 20, None], trace = []\<rparr> \<and>
   (1 :: u32) \<le> 3 \<and> (2 :: u32) \<le> 3 \<and> (0x4 :: u32) AND 0xF = push_bit (unat (2 :: u32)) 1 \<and>
   interrupt_handler 1 \<lparr>PIO_NUM = 1, irq = 0x4\<rparr>
     \<lparr>handlers = [None, None, None, None, None, Some (10 :: nat), Some 20, None], trace = []\<rparr> =
     (Inr (), \<lparr>handlers = [None, None, None, None, None, Some 10, Some 20, None],
        trace = [PioInterruptClear 1 3, HandlersLoad 6, Invoke 20]\<rparr>) \<and>
   (1 :: u32) \<noteq> 0 \<and> (unat (1 :: u32) + unat (1 :: u32)) mod 4 = unat (2 :: u32) \<and>
   (1 :: u32) \<noteq> 2 \<and> index_for \<lparr>PIO_NUM = 1, irq = 0x4\<rparr> 1 \<noteq> 6"
proof -
  let ?pio = "\<lparr>PIO_NUM = 1, irq = 0x4\<rparr>"
  let ?s = "\<lparr>handlers = [None, None, None, None, None, Some (10 :: nat), Some 20, None], trace = []\<rparr>"
  have v: "valid_pio 2 ?pio ?s"
    by (simp add: valid_pio_def)
  have n: "(1 :: u32) \<le> 3" and b: "(2 :: u32) \<le> 3"
    by simp_all
  have w: "irq ?pio AND 0xF = push_bit (unat (2 :: u32)) 1"
    by simp
  note t = interrupt_handler_uses_raw_bit_position [OF v n b w]
  from t have a: "interrupt_handler 1 ?pio ?s =
     (Inr (), \<lparr>handlers = [None, None, None, None, None, Some 10, Some 20, None],
        trace = [PioInterruptClear 1 3, HandlersLoad 6, Invoke 20]\<rparr>)"
    by simp
  have c: "(1 :: u32) \<noteq> 0 \<and> (1 :: u32) \<le> 3 \<and> (unat (1 :: u32) + unat (1 :: u32)) mod 4 = unat (2 :: u32)"
    by simp
  from t c have d: "(1 :: u32) \<noteq> 2 \<and> index_for ?pio 1 \<noteq> unat (PIO_NUM ?pio) * 4 + unat (2 :: u32)"
    by blast
  from v n b w a c d show ?thesis
    by simp
qed

text \<open>
  The scenario of claim C6 for the interrupt number 0: after handler \<open>A\<close> and then
  handler \<open>B\<close> are bound for state machine 1, the second call returns false, and when
  state machine 1 fires, the dispatch clears flag 1 and invokes \<open>B\<close> and nothing else.
\<close>

lemma rebind_then_fire_interrupt_number_0:
  assumes "valid_pio num_pios pio s" and "irq pio = fired_by 0 1"
  shows "\<exists>s1 s2.
     register_handler pio 1 (Some A) True s = (Inr (handlers s ! index_for pio 1 = None), s1) \<and>
     register_handler pio 1 (Some B) True s1 = (Inr False, s2) \<and>
     interrupt_handler 0 pio s2 =
       (Inr (), s2\<lparr>trace := trace s2 @
          [PioInterruptClear (PIO_NUM pio) 1, HandlersLoad (index_for pio 1), Invoke B]\<rparr>)"
proof -
  let ?idx = "index_for pio 1"
  let ?s1 = "s\<lparr>handlers := (handlers s)[?idx := Some A],
    trace := trace s @ [HandlersLoad ?idx, HandlersStore ?idx (Some A)]\<rparr>"
  let ?s2 = "?s1\<lparr>handlers := (handlers ?s1)[?idx := Some B],
    trace := trace ?s1 @ [HandlersLoad ?idx, HandlersStore ?idx (Some B)]\<rparr>"
  have "(1 :: u32) < 4"
    by simp
  with assms(1) have r: "?idx < length (handlers s)"
    by (rule index_for_valid(2))
  then have r1: "?idx < length (handlers ?s1)" and r2: "?idx < length (handlers ?s2)"
    by simp_all
  have e1: "register_handler pio 1 (Some A) True s = (Inr (handlers s ! ?idx = None), ?s1)"
    by (simp add: register_handler_in_range [OF r])
  have e2: "register_handler pio 1 (Some B) True ?s1 = (Inr False, ?s2)"
    using r by (simp add: register_handler_in_range [OF r1])
  have sm: "sm_from_interrupt (irq pio) 0 = Inr 1"
    by (simp add: assms(2) fired_by_0_1 sm_from_interrupt_cases)
  have ir: "relative_interrupt 0 1 = 1"
    by (simp add: relative_interrupt_def)
  have e3: "interrupt_handler 0 pio ?s2 =
      (Inr (), ?s2\<lparr>trace := trace ?s2 @
         [PioInterruptClear (PIO_NUM pio) 1, HandlersLoad ?idx, Invoke B]\<rparr>)"
    using interrupt_handler_resolved [OF sm r2] r by (simp add: ir)
  from e1 e2 e3 show ?thesis
    by blast
qed

text \<open>
  Claim C6, for the interrupt number 1. Handler 10 and then handler 20 are bound for state
  machine 1 of block 0; the second call returns false. State machine 1 then fires: it raises
  flag \<open>(1 + 1) mod 4 = 2\<close>, so the register reads \<open>0b0100\<close>. The dispatch takes the bit
  position 2 as the state machine, clears flag 3 and not flag 2, reads slot 2, which is
  empty, and invokes no handler: handler 20 is not invoked.
\<close>

theorem rebind_then_fire_interrupt_number_1:
  "fired_by 1 1 = 0b0100 \<and>
   register_handler \<lparr>PIO_NUM = 0, irq = 0\<rparr> 1 (Some 10) True (initial_world 2 :: nat world) =
     (Inr True,
      \<lparr>handlers = [None, Some 10, None, None, None, None, None, None],
       trace = [HandlersLoad 1, HandlersStore 1 (Some 10)]\<rparr>) \<and>
   register_handler \<lparr>PIO_NUM = 0, irq = 0\<rparr> 1 (Some 20) True
      \<lparr>handlers = [None, Some (10 :: nat), None, None, None, None, None, None],
       trace = [HandlersLoad 1, HandlersStore 1 (Some 10)]\<rparr> =
     (Inr False,
      \<lparr>handlers = [None, Some 20, None, None, None, None, None, None],
       trace = [HandlersLoad 1, HandlersStore 1 (Some 10),
                HandlersLoad 1, HandlersStore 1 (Some 20)]\<rparr>) \<and>
   interrupt_handler 1 \<lparr>PIO_NUM = 0, irq = fired_by 1 1\<rparr>
      \<lparr>handlers = [None, Some (20 :: nat), None, None, None, None, None, None],
       trace = [HandlersLoad 1, HandlersStore 1 (Some 10),
                HandlersLoad 1, HandlersStore 1 (Some 20)]\<rparr> =
     (Inr (),
      \<lparr>handlers = [None, Some 20, None, None, None, None, None, None],
       trace = [HandlersLoad 1, HandlersStore 1 (Some 10),
                HandlersLoad 1, HandlersStore 1 (Some 20),
                PioInterruptClear 0 3, HandlersLoad 2]\<rparr>)"
proof -
  have i: "index_for \<lparr>PIO_NUM = 0, irq = 0\<rparr> 1 = 1"
    by (simp add: index_for_def)
  have w: "initial_world 2 = \<lparr>handlers = replicate 8 (None :: nat option), trace = []\<rparr>"
    by (simp add: initial_world_def)
  have r8: "replicate 8 (None :: nat option) = [None, None, None, None, None, None, None, None]"
    by (simp add: numeral_eq_Suc)
  have e1: "register_handler \<lparr>PIO_NUM = 0, irq = 0\<rparr> 1 (Some 10) True (initial_world 2 :: nat world) =
     (Inr True,
      \<lparr>handlers = [None, Some 10, None, None, None, None, None, None],
       trace = [HandlersLoad 1, HandlersStore 1 (Some 10)]\<rparr>)"
    by (simp add: w r8 register_handler_in_range i)
  have e2: "register_handler \<lparr>PIO_NUM = 0, irq = 0\<rparr> 1 (Some 20) True
      \<lparr>handlers = [None, Some (10 :: nat), None, None, None, None, None, None],
       trace = [HandlersLoad 1, HandlersStore 1 (Some 10)]\<rparr> =
     (Inr False,
      \<lparr>handlers = [None, Some 20, None, None, None, None, None, None],
       trace = [HandlersLoad 1, HandlersStore 1 (Some 10),
                HandlersLoad 1, HandlersStore 1 (Some 20)]\<rparr>)"
    by (simp add: register_handler_in_range i)
  have sm: "sm_from_interrupt (irq \<lparr>PIO_NUM = 0, irq = fired_by 1 1\<rparr>) 1 = Inr 2"
    by (simp add: fired_by_1_1 sm_from_interrupt_cases)
  have j: "index_for \<lparr>PIO_NUM = 0, irq = fired_by 1 1\<rparr> 2 = 2"
    by (simp add: index_for_def)
  have ir: "relative_interrupt 1 2 = 3"
    by (simp add: relative_interrupt_def)
  have e3: "interrupt_handler 1 \<lparr>PIO_NUM = 0, irq = fired_by 1 1\<rparr>
      \<lparr>handlers = [None, Some (20 :: nat), None, None, None, None, None, None],
       trace = [HandlersLoad 1, HandlersStore 1 (Some 10),
                HandlersLoad 1, HandlersStore 1 (Some 20)]\<rparr> =
     (Inr (),
      \<lparr>handlers = [None, Some 20, None, None, None, None, None, None],
       trace = [HandlersLoad 1, HandlersStore 1 (Some 10),
                HandlersLoad 1, HandlersStore 1 (Some 20),
                PioInterruptClear 0 3, HandlersLoad 2]\<rparr>)"
    by (subst interrupt_handler_resolved [OF sm]) (simp_all add: j ir)
  from fired_by_1_1 e1 e2 e3 show ?thesis
    by simp
qed

end
